theory Spec2Isabelle
  imports Complex_Main
begin

section \<open>Impulse-based collision handling of \<open>ImpulseSim\<close>\<close>

text \<open>
  A shallow embedding of the collision handling of
  \<^verbatim>\<open>src/lab/engine2D/ImpulseSim.js\<close>. JavaScript numbers are modelled by exact
  real numbers; a mass or a moment of inertia may also be \<open>Infinity\<close>. Exceptions are
  values, and the loop of the serial handler takes fuel.
\<close>

subsection \<open>Numbers, vectors, bodies and collisions\<close>

text \<open>A number that is either finite or \<open>Infinity\<close> (the mass of an immovable body).\<close>

datatype jsnum = Fin real | PosInf

fun isFinite :: "jsnum \<Rightarrow> bool" where
  "isFinite (Fin _) = True"
| "isFinite PosInf = False"

text \<open>
  Division of a finite number by a \<open>jsnum\<close>: a finite number divided by \<open>Infinity\<close> is
  zero. For a divisor that is finite and not zero this is the quotient of the source;
  masses and moments are positive.
\<close>

fun divn :: "real \<Rightarrow> jsnum \<Rightarrow> real" where
  "divn a (Fin m) = a / m"
| "divn a PosInf = 0"

record vector =
  getX :: real
  getY :: real

text \<open>
  A rigid body as the collision handling sees it. \<open>body_id\<close> stands for the identity of
  the object: the source compares bodies with \<open>==\<close>. The velocities of a body are
  variables of the simulation, found through \<open>getVarsIndex\<close>.
\<close>

record RigidBody =
  body_id :: nat
  getMass :: jsnum
  momentAboutCM :: jsnum
  getVarsIndex :: int

text \<open>
  A \<open>RigidBodyCollision\<close>. The class is not among the sources: the fields are those that
  \<open>ImpulseSim\<close> reads and writes; \<open>contact\<close> and \<open>getElasticity\<close> are the results of the
  methods of these names, and \<open>collision_id\<close> is the identity of the object.
\<close>

record RigidBodyCollision =
  collision_id :: nat
  primaryBody :: RigidBody
  normalBody :: RigidBody
  r1 :: vector
  r2 :: vector
  normal :: vector
  normalVelocity :: real
  getElasticity :: real
  joint :: bool
  contact :: bool
  impulse :: real

definition TINY_IMPULSE :: real where
  "TINY_IMPULSE = 1 / 10 ^ 12"

definition SMALL_IMPULSE :: real where
  "SMALL_IMPULSE = 1 / 10 ^ 4"

subsection \<open>The influence of an impulse, and the collision matrix\<close>

text \<open>
  \<open>influence ci cj body\<close>: the change of the relative normal velocity at \<open>ci\<close> that a unit
  impulse at \<open>cj\<close> on \<open>body\<close> causes. Each of the two inner choices either finds the
  offset from the centre of mass of the body to the impact point or returns zero, in the
  order of the source.
\<close>

definition influence :: "RigidBodyCollision \<Rightarrow> RigidBodyCollision \<Rightarrow> RigidBody \<Rightarrow> real" where
  "influence ci cj body =
    (if \<not> isFinite (getMass body) then 0
     else
       (case (if primaryBody ci = body then Some (getX (r1 ci), getY (r1 ci))
              else if normalBody ci = body then Some (getX (r2 ci), getY (r2 ci))
              else None) of
          None \<Rightarrow> 0
        | Some (rix, riy) \<Rightarrow>
          (case (if primaryBody cj = body then Some (getX (r1 cj), getY (r1 cj), 1)
                 else if normalBody cj = body then Some (getX (r2 cj), getY (r2 cj), - 1)
                 else None) of
             None \<Rightarrow> 0
           | Some (rjx, rjy, factor) \<Rightarrow>
               factor * (
                 getX (normal ci) * (divn (getX (normal cj)) (getMass body)
                   - divn (riy * (rjx * getY (normal cj) - rjy * getX (normal cj)))
                       (momentAboutCM body))
                 + getY (normal ci) * (divn (getY (normal cj)) (getMass body)
                   + divn (rix * (rjx * getY (normal cj) - rjy * getX (normal cj)))
                       (momentAboutCM body))))))"

definition makeCollisionMatrix :: "RigidBodyCollision list \<Rightarrow> real list list" where
  "makeCollisionMatrix collisions =
     map (\<lambda>ci. map (\<lambda>cj. 0 + influence ci cj (primaryBody ci)
                           - influence ci cj (normalBody ci)) collisions) collisions"


subsection \<open>The state of the simulation and its collaborators\<close>

datatype CollisionHandling =
  SIMULTANEOUS | HYBRID | SERIAL_SEPARATE | SERIAL_GROUPED
  | SERIAL_SEPARATE_LASTPASS | SERIAL_GROUPED_LASTPASS

text \<open>What the source writes to the console outside of its \<open>debugHCS\<close> tracing.\<close>

datatype diagnostic =
  LoopPanic nat real
  | LoopLimit nat
  | ComputeImpulsesWarning int
  | ManyLoops nat

datatype error =
  EmptyArray
  | AssertionFailed
  | NegativeImpulse real
  | ComputeImpulsesFailed int

datatype 'a outcome = Returns 'a | Throws error

text \<open>
  The part of an \<open>ImpulseSim\<close> that collision handling touches. \<open>vars\<close> and \<open>seqs\<close> are the
  values and the sequence numbers of the variables of its \<open>VarsList\<close>, by index; \<open>VX\<close>,
  \<open>VY\<close> and \<open>VW\<close> stand for the constants \<open>RigidBodySim.VX_\<close>, \<open>VY_\<close> and \<open>VW_\<close>, which are
  declared outside the sources and are left open here. \<open>simRNG\<close> is the seed of the
  random number generator, \<open>console\<close> collects the diagnostics.
\<close>

record ImpulseSim =
  vars :: "int \<Rightarrow> real"
  seqs :: "int \<Rightarrow> nat"
  simRNG :: int
  collisionHandling :: CollisionHandling
  getTime :: real
  console :: "diagnostic list"
  VX :: int
  VY :: int
  VW :: int

text \<open>
  Modelled from the spec: the class \<open>VarsList\<close> is not among the sources. A body has read
  and write access to its linear velocity and angular velocity, and a change that is not
  continuous bumps the sequence number of the variable.
\<close>

definition setValue :: "ImpulseSim \<Rightarrow> int \<Rightarrow> real \<Rightarrow> bool \<Rightarrow> ImpulseSim" where
  "setValue sim idx v cont =
     sim\<lparr>vars := (vars sim)(idx := v),
         seqs := (if cont then seqs sim else (seqs sim)(idx := Suc (seqs sim idx)))\<rparr>"

definition incrSequence :: "ImpulseSim \<Rightarrow> int list \<Rightarrow> ImpulseSim" where
  "incrSequence sim idxs =
     sim\<lparr>seqs := foldl (\<lambda>s idx. s(idx := Suc (s idx))) (seqs sim) idxs\<rparr>"

definition print :: "diagnostic \<Rightarrow> ImpulseSim \<Rightarrow> ImpulseSim" where
  "print d sim = sim\<lparr>console := console sim @ [d]\<rparr>"

text \<open>
  The collaborators that are not among the sources are parameters: the flag \<open>goog.DEBUG\<close>,
  the solver \<open>ComputeForces.compute_forces\<close> (it shares the random number generator of the
  simulation, and returns the impulses it wrote and its error code), \<open>Random.randomInts\<close>,
  \<open>UtilityCollision.subsetCollisions2\<close> and \<open>RigidBodyCollision.checkConsistent\<close>.
\<close>

record collaborators =
  DEBUG :: bool
  compute_forces :: "int \<Rightarrow> real list list \<Rightarrow> real list \<Rightarrow> real list \<Rightarrow> bool list
     \<Rightarrow> bool \<Rightarrow> real \<Rightarrow> (real list \<times> int) \<times> int"
  randomInts :: "int \<Rightarrow> nat \<Rightarrow> nat list \<times> int"
  subsetCollisions2 :: "RigidBodyCollision list \<Rightarrow> RigidBodyCollision \<Rightarrow> bool \<Rightarrow> real list
     \<Rightarrow> real \<Rightarrow> RigidBodyCollision list"
  checkConsistent :: "RigidBodyCollision \<Rightarrow> bool"

text \<open>The solver writes into an array of \<open>n\<close> zeros that the caller made.\<close>

definition fixlen :: "nat \<Rightarrow> real list \<Rightarrow> real list" where
  "fixlen n xs = take n xs @ replicate (n - length xs) 0"

text \<open>
  Modelled from the spec: \<open>UtilEngine.matrixMultiply\<close>, \<open>UtilEngine.vectorAdd\<close> and
  \<open>ComputeForces.checkForceAccel\<close> are not among the sources. The post-solve vector is
  \<open>a = A \<cdot> j + b\<close>, and the core verifies that \<open>|a[i]|\<close> is within the tolerance on joint rows
  and on non-joint rows with \<open>j[i] > 0\<close>.
\<close>

definition matrixMultiply :: "real list list \<Rightarrow> real list \<Rightarrow> real list" where
  "matrixMultiply A j = map (\<lambda>row. sum_list (map2 (*) row j)) A"

definition vectorAdd :: "real list \<Rightarrow> real list \<Rightarrow> real list" where
  "vectorAdd u v = map2 (+) u v"

definition checkForceAccel :: "real \<Rightarrow> real list \<Rightarrow> real list \<Rightarrow> bool list \<Rightarrow> bool" where
  "checkForceAccel tol j accel jnt =
     list_all (\<lambda>i. (jnt ! i \<or> j ! i > 0) \<longrightarrow> \<bar>accel ! i\<bar> \<le> tol) [0..<length j]"

subsection \<open>Applying an impulse\<close>

text \<open>
  \<open>applyImpulse\<close> either throws, before it has written anything, or returns the simulation
  and the collision as it has changed them. The collision dot that it may draw is not part
  of the model.
\<close>

definition applyImpulse ::
  "ImpulseSim \<Rightarrow> RigidBodyCollision \<Rightarrow> real \<Rightarrow> error + (ImpulseSim \<times> RigidBodyCollision)" where
  "applyImpulse sim cd j0 =
    (if \<not> joint cd \<and> j0 < 0 \<and> j0 < - TINY_IMPULSE then Inl (NegativeImpulse j0)
     else
       (let j = (if \<not> joint cd \<and> j0 < 0 then 0 else j0);
            cd' = cd\<lparr>impulse := j\<rparr>
        in if j = 0 then Inr (sim, cd')
           else
             (let cont = (\<bar>j\<bar> < SMALL_IMPULSE);
                  m = getMass (primaryBody cd);
                  sim1 =
                    (if isFinite m then
                       (let I = momentAboutCM (primaryBody cd);
                            offset = getVarsIndex (primaryBody cd)
                        in if offset > - 1 then
                             (let s1 = setValue sim (VX sim + offset)
                                   (vars sim (VX sim + offset) + divn (getX (normal cd) * j) m)
                                   cont;
                                  s2 = setValue s1 (VY s1 + offset)
                                   (vars s1 (VY s1 + offset) + divn (getY (normal cd) * j) m)
                                   cont
                              in setValue s2 (VW s2 + offset)
                                   (vars s2 (VW s2 + offset)
                                    + divn (j * (getX (r1 cd) * getY (normal cd)
                                                 - getY (r1 cd) * getX (normal cd))) I)
                                   cont)
                           else sim)
                     else sim);
                  m2 = getMass (normalBody cd)
              in Inr
                ((if isFinite m2 then
                    (let I = momentAboutCM (normalBody cd);
                         offset = getVarsIndex (normalBody cd)
                     in if offset > - 1 then
                          (let s1 = setValue sim1 (VX sim1 + offset)
                                (vars sim1 (VX sim1 + offset) - divn (getX (normal cd) * j) m2)
                                cont;
                               s2 = setValue s1 (VY s1 + offset)
                                (vars s1 (VY s1 + offset) - divn (getY (normal cd) * j) m2)
                                cont
                           in setValue s2 (VW s2 + offset)
                                (vars s2 (VW s2 + offset)
                                 - divn (j * (getX (r2 cd) * getY (normal cd)
                                              - getY (r2 cd) * getX (normal cd))) I)
                                cont)
                        else sim1)
                  else sim1), cd'))))"

text \<open>
  The loop that ends both handlers: it notes whether an impulse is larger than
  \<open>TINY_IMPULSE\<close> and applies the impulse. A throw leaves what the earlier rounds wrote.
\<close>

fun applyImpulses ::
  "ImpulseSim \<Rightarrow> (RigidBodyCollision \<times> real) list \<Rightarrow> bool
     \<Rightarrow> error option \<times> ImpulseSim \<times> RigidBodyCollision list \<times> bool" where
  "applyImpulses sim [] imp = (None, sim, [], imp)"
| "applyImpulses sim ((c, j) # rest) imp =
     (let imp' = (imp \<or> j > TINY_IMPULSE)
      in case applyImpulse sim c j of
           Inl err \<Rightarrow> (Some err, sim, c # map fst rest, imp')
         | Inr (sim', c') \<Rightarrow>
             (case applyImpulses sim' rest imp' of
                (r, sim'', cs', imp'') \<Rightarrow> (r, sim'', c' # cs', imp'')))"

subsection \<open>The simultaneous handler\<close>

text \<open>The vector \<open>b\<close> that \<open>handleCollisionsSimultaneous\<close> hands to the solver.\<close>

definition simultaneous_b :: "RigidBodyCollision list \<Rightarrow> real list" where
  "simultaneous_b collisions =
     map (\<lambda>ck. normalVelocity ck * (if contact ck then 1 else 1 + getElasticity ck)) collisions"

text \<open>
  A handler gives back how it ended, the simulation, the collisions with their recorded
  impulses, and the totals. \<open>modifyObjects\<close> copies the variables to the body objects and
  is not part of the model: the velocity of a body is read from the variables.
\<close>

definition handleCollisionsSimultaneous ::
  "collaborators \<Rightarrow> ImpulseSim \<Rightarrow> RigidBodyCollision list \<Rightarrow> nat option
     \<Rightarrow> bool outcome \<times> ImpulseSim \<times> RigidBodyCollision list \<times> nat option" where
  "handleCollisionsSimultaneous env sim collisions opt_totals =
    (let n = length collisions;
         b = simultaneous_b collisions;
         jnt = map joint collisions;
         nonJoint = list_ex (\<lambda>ck. \<not> joint ck) collisions;
         A = makeCollisionMatrix collisions
     in case compute_forces env (simRNG sim) A (replicate n 0) b jnt False (getTime sim) of
       ((jout, err), rng) \<Rightarrow>
         (let j = fixlen n jout;
              sim1 = sim\<lparr>simRNG := rng\<rparr>
          in if DEBUG env \<and> err \<noteq> - 1
                \<and> \<not> checkForceAccel (1 / 10 ^ 4) j (vectorAdd (matrixMultiply A j) b) jnt
             then (Throws (ComputeImpulsesFailed err), sim1, collisions, opt_totals)
             else
               (let sim2 = (if DEBUG env \<and> err \<noteq> - 1
                            then print (ComputeImpulsesWarning err) sim1 else sim1)
                in case applyImpulses sim2 (zip collisions j) False of
                     (Some e, sim3, cs', imp) \<Rightarrow> (Throws e, sim3, cs', opt_totals)
                   | (None, sim3, cs', imp) \<Rightarrow>
                       (Returns imp,
                        (if nonJoint \<and> imp then incrSequence sim3 [1, 3] else sim3),
                        cs', map_option Suc opt_totals))))"

subsection \<open>The serial handler\<close>

definition LOOP_LIMIT :: nat where
  "LOOP_LIMIT = 100000"

text \<open>Whether the collision \<open>j\<close> has a velocity larger than \<open>small_velocity\<close>; an index
  outside of an array reads \<open>undefined\<close>, and every comparison with it is false.\<close>

definition large_at :: "real \<Rightarrow> bool list \<Rightarrow> real list \<Rightarrow> nat \<Rightarrow> bool" where
  "large_at small_velocity jnt b j =
     (j < length b \<and>
      (let jj = (j < length jnt \<and> jnt ! j)
       in (\<not> jj \<and> b ! j < - small_velocity) \<or> (jj \<and> \<bar>b ! j\<bar> > small_velocity)))"

text \<open>\<open>hcs_focus\<close> gives the focus and the new seed of the generator.\<close>

definition hcs_focus ::
  "collaborators \<Rightarrow> int \<Rightarrow> real \<Rightarrow> bool list \<Rightarrow> real list \<Rightarrow> int \<times> int" where
  "hcs_focus env rng small_velocity jnt b =
    (let n = length b in
     case randomInts env rng n of
       (indices, rng') \<Rightarrow>
         (case find (large_at small_velocity jnt b) (take n indices) of
            None \<Rightarrow> (- 1, rng')
          | Some j \<Rightarrow> (int j, rng')))"

definition findIndex :: "'a list \<Rightarrow> 'a \<Rightarrow> int" where
  "findIndex xs c =
     (case find (\<lambda>k. xs ! k = c) [0..<length xs] of None \<Rightarrow> - 1 | Some k \<Rightarrow> int k)"

text \<open>The flags \<open>set\<close> of \<open>hcs_handle\<close>: which collisions are handled together.\<close>

definition hcs_set ::
  "collaborators \<Rightarrow> bool \<Rightarrow> bool \<Rightarrow> real \<Rightarrow> int \<Rightarrow> real list \<Rightarrow> RigidBodyCollision list
     \<Rightarrow> bool list" where
  "hcs_set env hybrid grouped small_velocity focus b collisions =
    (let n = length b in
     if focus = - 1 then replicate n True
     else if hybrid \<or> grouped then
       foldl (\<lambda>s c. let loc = findIndex collisions c
                     in if loc \<ge> 0 then s[nat loc := True] else s)
         (replicate n False)
         (subsetCollisions2 env collisions (collisions ! nat focus) hybrid b (- small_velocity))
     else map (\<lambda>k. int k = focus) [0..<n])"

text \<open>
  \<open>hcs_handle\<close> gives the error it throws, if any, the new \<open>b\<close> and \<open>j2\<close>, and the
  simulation. \<open>idx2\<close> maps the rows of the subset to the rows of the whole system, in
  ascending order; the inverse \<open>idx\<close> of the source is used through \<open>idx2\<close>.
\<close>

definition hcs_handle ::
  "collaborators \<Rightarrow> bool \<Rightarrow> bool \<Rightarrow> real \<Rightarrow> int \<Rightarrow> bool list \<Rightarrow> real list \<Rightarrow> real list
     \<Rightarrow> real list \<Rightarrow> RigidBodyCollision list \<Rightarrow> real list list \<Rightarrow> ImpulseSim
     \<Rightarrow> error option \<times> real list \<times> real list \<times> ImpulseSim" where
  "hcs_handle env hybrid grouped small_velocity focus jnt e b j2 collisions A sim =
    (let n = length b;
         sel = hcs_set env hybrid grouped small_velocity focus b collisions;
         idx2 = filter (\<lambda>k. sel ! k) [0..<n];
         n1 = length idx2;
         A1 = map (\<lambda>i. map (\<lambda>j. A ! i ! j) idx2) idx2;
         joint1 = map (\<lambda>i. jnt ! i) idx2;
         b1 = map (\<lambda>i. if focus \<noteq> - 1 then b ! i * (1 + e ! i) else b ! i) idx2
     in case compute_forces env (simRNG sim) A1 (replicate n1 0) b1 joint1 False (getTime sim) of
       ((jout, err), rng) \<Rightarrow>
         (let j1 = fixlen n1 jout;
              sim1 = sim\<lparr>simRNG := rng\<rparr>
          in if err \<noteq> - 1
                \<and> \<not> checkForceAccel (1 / 10 ^ 4) j1 (vectorAdd (matrixMultiply A1 j1) b1) joint1
             then (Some (ComputeImpulsesFailed err), b, j2, sim1)
             else
               (None,
                map (\<lambda>i. foldl (\<lambda>acc k. acc + A ! i ! (idx2 ! k) * j1 ! k) (b ! i) [0..<n1])
                  [0..<n],
                foldl (\<lambda>js k. js[idx2 ! k := js ! (idx2 ! k) + j1 ! k]) j2 [0..<n1],
                (if err \<noteq> - 1 \<and> DEBUG env
                 then print (ComputeImpulsesWarning err) sim1 else sim1))))"

text \<open>What stays fixed during the loop of \<open>handleCollisionsSerial\<close>, and what changes.\<close>

record hcs_fixed =
  fx_hybrid :: bool
  fx_grouped :: bool
  fx_lastPass :: bool
  fx_doPanic :: bool
  fx_joint :: "bool list"
  fx_e :: "real list"
  fx_collisions :: "RigidBodyCollision list"
  fx_A :: "real list list"

record hcs_state =
  st_loopCtr :: nat
  st_loopPanic :: nat
  st_small_velocity :: real
  st_debugHCS :: bool
  st_b :: "real list"
  st_j2 :: "real list"
  st_sim :: ImpulseSim
  st_totals :: "nat option"

text \<open>
  The head of the body of the \<open>do\<close> loop: the counter, the panic, and the diagnostic of
  the loop limit.
\<close>

definition hcs_tick :: "collaborators \<Rightarrow> hcs_fixed \<Rightarrow> hcs_state \<Rightarrow> hcs_state" where
  "hcs_tick env fx st =
    (let loopCtr = st_loopCtr st + 1;
         panic = (fx_doPanic fx \<and> loopCtr > st_loopPanic st);
         small_velocity = (if panic then st_small_velocity st * 2 else st_small_velocity st);
         loopPanic = (if panic then st_loopPanic st + 20 * length (fx_collisions fx)
                      else st_loopPanic st);
         sim1 = (if panic \<and> DEBUG env then print (LoopPanic loopCtr small_velocity) (st_sim st)
                 else st_sim st);
         limit = (DEBUG env \<and> loopCtr > LOOP_LIMIT);
         sim2 = (if limit then print (LoopLimit loopCtr) sim1 else sim1)
     in st\<lparr>st_loopCtr := loopCtr, st_loopPanic := loopPanic,
            st_small_velocity := small_velocity,
            st_debugHCS := (st_debugHCS st \<or> limit),
            st_sim := sim2\<rparr>)"

text \<open>
  The \<open>do\<close> loop. Without fuel the result is \<open>None\<close>; otherwise it is the error that was
  thrown, if any, and the state in which the loop was left.
\<close>

fun hcs_loop ::
  "nat \<Rightarrow> collaborators \<Rightarrow> hcs_fixed \<Rightarrow> hcs_state \<Rightarrow> (error option \<times> hcs_state) option" where
  "hcs_loop 0 env fx st = None"
| "hcs_loop (Suc fuel) env fx st =
    (let st0 = hcs_tick env fx st
     in case hcs_focus env (simRNG (st_sim st0)) (st_small_velocity st0) (fx_joint fx)
               (st_b st0) of
       (focus, rng) \<Rightarrow>
         (let st1 = st0\<lparr>st_sim := (st_sim st0)\<lparr>simRNG := rng\<rparr>\<rparr>
          in if focus = - 1 \<and> \<not> fx_lastPass fx then Some (None, st1)
             else
               (case hcs_handle env (fx_hybrid fx) (fx_grouped fx) (st_small_velocity st1)
                       focus (fx_joint fx) (fx_e fx) (st_b st1) (st_j2 st1)
                       (fx_collisions fx) (fx_A fx) (st_sim st1) of
                  (Some err, b', j2', sim') \<Rightarrow> Some (Some err, st1\<lparr>st_sim := sim'\<rparr>)
                | (None, b', j2', sim') \<Rightarrow>
                    (let st2 = st1\<lparr>st_b := b', st_j2 := j2', st_sim := sim',
                                    st_totals := map_option Suc (st_totals st1)\<rparr>
                     in if focus > - 1 then hcs_loop fuel env fx st2
                        else Some (None, st2)))))"

text \<open>The values with which \<open>handleCollisionsSerial\<close> enters its loop.\<close>

definition hcs_fixed_of :: "RigidBodyCollision list \<Rightarrow> bool \<Rightarrow> bool \<Rightarrow> bool \<Rightarrow> bool \<Rightarrow> hcs_fixed" where
  "hcs_fixed_of collisions hybrid grouped lastPass doPanic =
     \<lparr>fx_hybrid = hybrid, fx_grouped = grouped, fx_lastPass = lastPass, fx_doPanic = doPanic,
      fx_joint = map joint collisions,
      fx_e = map (\<lambda>ck. if grouped then (if joint ck then 0 else getElasticity ck)
                        else getElasticity ck) collisions,
      fx_collisions = collisions,
      fx_A = makeCollisionMatrix collisions\<rparr>"

definition hcs_init :: "ImpulseSim \<Rightarrow> RigidBodyCollision list \<Rightarrow> nat option \<Rightarrow> real \<Rightarrow> hcs_state" where
  "hcs_init sim collisions opt_totals small_velocity =
     \<lparr>st_loopCtr = 0, st_loopPanic = 20 * length collisions,
      st_small_velocity = small_velocity, st_debugHCS = False,
      st_b = map normalVelocity collisions,
      st_j2 = replicate (length collisions) 0,
      st_sim = sim, st_totals = opt_totals\<rparr>"

text \<open>
  \<open>handleCollisionsSerial\<close>; an optional argument that the caller leaves out is \<open>None\<close>.
  The result is \<open>None\<close> when the fuel does not suffice for the loop.
\<close>

definition handleCollisionsSerial ::
  "collaborators \<Rightarrow> nat \<Rightarrow> ImpulseSim \<Rightarrow> RigidBodyCollision list \<Rightarrow> bool \<Rightarrow> nat option
     \<Rightarrow> bool option \<Rightarrow> bool option \<Rightarrow> real option \<Rightarrow> bool option
     \<Rightarrow> (bool outcome \<times> ImpulseSim \<times> RigidBodyCollision list \<times> nat option) option" where
  "handleCollisionsSerial env fuel sim collisions hybrid opt_totals grouped0 lastPass0
       small_velocity0 doPanic0 =
    (let grouped = (case grouped0 of None \<Rightarrow> True | Some g \<Rightarrow> g);
         lastPass = (case lastPass0 of None \<Rightarrow> True | Some l \<Rightarrow> l);
         small_velocity = (case small_velocity0 of None \<Rightarrow> 1 / 100000
                           | Some v \<Rightarrow> if v = 0 then 1 / 100000 else v);
         doPanic = (case doPanic0 of None \<Rightarrow> True | Some d \<Rightarrow> d);
         n = length collisions;
         nonJoint = list_ex (\<lambda>ck. \<not> joint ck) collisions
     in case hcs_loop fuel env (hcs_fixed_of collisions hybrid grouped lastPass doPanic)
               (hcs_init sim collisions opt_totals small_velocity) of
          None \<Rightarrow> None
        | Some (Some err, st) \<Rightarrow> Some (Throws err, st_sim st, collisions, st_totals st)
        | Some (None, st) \<Rightarrow>
            (case applyImpulses (st_sim st) (zip collisions (st_j2 st)) False of
               (Some err, sim', cs', imp) \<Rightarrow> Some (Throws err, sim', cs', st_totals st)
             | (None, sim', cs', imp) \<Rightarrow>
                 (let sim2 = (if nonJoint \<and> imp then incrSequence sim' [1, 3] else sim');
                      sim3 = (if DEBUG env
                                 \<and> real (st_loopCtr st) > 100 + 2 * real n * ln (real n + 1)
                              then print (ManyLoops (st_loopCtr st)) sim2 else sim2)
                  in Some (Returns imp, sim3, cs', st_totals st))))"

subsection \<open>The entry point\<close>

definition handleCollisions ::
  "collaborators \<Rightarrow> nat \<Rightarrow> ImpulseSim \<Rightarrow> RigidBodyCollision list \<Rightarrow> nat option
     \<Rightarrow> (bool outcome \<times> ImpulseSim \<times> RigidBodyCollision list \<times> nat option) option" where
  "handleCollisions env fuel sim collisions opt_totals =
    (if length collisions = 0 then Some (Throws EmptyArray, sim, collisions, opt_totals)
     else if DEBUG env \<and> \<not> list_all (checkConsistent env) collisions
     then Some (Throws AssertionFailed, sim, collisions, opt_totals)
     else
       (case collisionHandling sim of
          SIMULTANEOUS \<Rightarrow> Some (handleCollisionsSimultaneous env sim collisions opt_totals)
        | HYBRID \<Rightarrow>
            handleCollisionsSerial env fuel sim collisions True opt_totals None None None None
        | SERIAL_SEPARATE \<Rightarrow>
            handleCollisionsSerial env fuel sim collisions False opt_totals
              (Some False) (Some False) None None
        | SERIAL_GROUPED \<Rightarrow>
            handleCollisionsSerial env fuel sim collisions False opt_totals
              (Some True) (Some False) None None
        | SERIAL_SEPARATE_LASTPASS \<Rightarrow>
            handleCollisionsSerial env fuel sim collisions False opt_totals
              (Some False) (Some True) None None
        | SERIAL_GROUPED_LASTPASS \<Rightarrow>
            handleCollisionsSerial env fuel sim collisions False opt_totals
              (Some True) (Some True) None None))"

section \<open>Auxiliary notions and example data\<close>

subsection \<open>Notions used in the statements and proofs\<close>

fun invn :: "jsnum \<Rightarrow> real" where
  "invn (Fin m) = 1 / m"
| "invn PosInf = 0"

definition cross :: "vector \<Rightarrow> vector \<Rightarrow> real" where
  "cross r n = getX r * getY n - getY r * getX n"

definition involved :: "RigidBodyCollision \<Rightarrow> RigidBody \<Rightarrow> bool" where
  "involved c B = (primaryBody c = B \<or> normalBody c = B)"

definition role_r :: "RigidBodyCollision \<Rightarrow> RigidBody \<Rightarrow> vector" where
  "role_r c B = (if primaryBody c = B then r1 c else r2 c)"

definition role_factor :: "RigidBodyCollision \<Rightarrow> RigidBody \<Rightarrow> real" where
  "role_factor c B = (if primaryBody c = B then 1 else - 1)"

definition entry :: "RigidBodyCollision \<Rightarrow> RigidBodyCollision \<Rightarrow> real" where
  "entry ci cj = 0 + influence ci cj (primaryBody ci) - influence ci cj (normalBody ci)"

subsection \<open>Example bodies, collisions and collaborators\<close>

definition ex_ball :: RigidBody where
  "ex_ball = \<lparr>body_id = 1, getMass = Fin 1, momentAboutCM = Fin 1, getVarsIndex = 4\<rparr>"


definition ex_wall :: RigidBody where
  "ex_wall = \<lparr>body_id = 0, getMass = PosInf, momentAboutCM = PosInf, getVarsIndex = 16\<rparr>"

definition ex_origin :: vector where
  "ex_origin = \<lparr>getX = 0, getY = 0\<rparr>"

definition ex_east :: vector where
  "ex_east = \<lparr>getX = 1, getY = 0\<rparr>"


text \<open>A resting contact of the ball on the wall: not a joint, but a contact.\<close>

definition ex_resting :: RigidBodyCollision where
  "ex_resting = \<lparr>collision_id = 1, primaryBody = ex_ball, normalBody = ex_wall,
     r1 = ex_origin, r2 = ex_origin, normal = ex_east,
     normalVelocity = - 1 / 10, getElasticity = 1 / 2, joint = False, contact = True,
     impulse = 0\<rparr>"

text \<open>The ball hits the wall with velocity 1.\<close>

definition ex_hit :: RigidBodyCollision where
  "ex_hit = \<lparr>collision_id = 2, primaryBody = ex_ball, normalBody = ex_wall,
     r1 = ex_origin, r2 = ex_origin, normal = ex_east,
     normalVelocity = - 1, getElasticity = 1, joint = False, contact = False, impulse = 0\<rparr>"

text \<open>
  A block of mass 2 and moment 4 that is pushed against the wall and poked by the ball, off
  its centre; and a slider of mass 2 that cannot turn.
\<close>

definition ex_block :: RigidBody where
  "ex_block = \<lparr>body_id = 4, getMass = Fin 2, momentAboutCM = Fin 4, getVarsIndex = 28\<rparr>"

definition ex_slider :: RigidBody where
  "ex_slider = \<lparr>body_id = 5, getMass = Fin 2, momentAboutCM = PosInf, getVarsIndex = 34\<rparr>"

definition ex_push :: RigidBodyCollision where
  "ex_push = \<lparr>collision_id = 10, primaryBody = ex_block, normalBody = ex_wall,
     r1 = \<lparr>getX = 1, getY = 2\<rparr>, r2 = ex_origin, normal = \<lparr>getX = 3 / 5, getY = 4 / 5\<rparr>,
     normalVelocity = - 1, getElasticity = 1 / 2, joint = False, contact = False,
     impulse = 0\<rparr>"

definition ex_poke :: RigidBodyCollision where
  "ex_poke = \<lparr>collision_id = 11, primaryBody = ex_ball, normalBody = ex_block,
     r1 = ex_origin, r2 = \<lparr>getX = 3, getY = 1\<rparr>, normal = ex_east,
     normalVelocity = - 1, getElasticity = 1 / 2, joint = False, contact = False,
     impulse = 0\<rparr>"

definition ex_sim :: "CollisionHandling \<Rightarrow> ImpulseSim" where
  "ex_sim h = \<lparr>vars = (\<lambda>_. 0), seqs = (\<lambda>_. 0), simRNG = 0, collisionHandling = h,
     getTime = 0, console = [], VX = 1, VY = 3, VW = 5\<rparr>"

text \<open>A solver that treats every row by itself; it is exact for a single row.\<close>

definition ex_solver :: "int \<Rightarrow> real list list \<Rightarrow> real list \<Rightarrow> real list \<Rightarrow> bool list
     \<Rightarrow> bool \<Rightarrow> real \<Rightarrow> (real list \<times> int) \<times> int" where
  "ex_solver rng A j b jnt dbg t =
     ((map (\<lambda>i. if jnt ! i \<or> b ! i < 0 then - (b ! i) / (A ! i ! i) else 0) [0..<length b],
       - 1), rng)"

definition ex_env :: "bool \<Rightarrow> collaborators" where
  "ex_env d = \<lparr>DEBUG = d, compute_forces = ex_solver,
     randomInts = (\<lambda>rng n. ([0..<n], rng)),
     subsetCollisions2 = (\<lambda>cs c hybrid b v. [c]),
     checkConsistent = (\<lambda>c. True)\<rparr>"

subsection \<open>Velocities of bodies and the variables that hold them\<close>

definition velocity_vars :: "ImpulseSim \<Rightarrow> RigidBody \<Rightarrow> int set" where
  "velocity_vars sim B =
     {VX sim + getVarsIndex B, VY sim + getVarsIndex B, VW sim + getVarsIndex B}"

definition body_velocity :: "ImpulseSim \<Rightarrow> RigidBody \<Rightarrow> real \<times> real \<times> real" where
  "body_velocity sim B =
     (vars sim (VX sim + getVarsIndex B), vars sim (VY sim + getVarsIndex B),
      vars sim (VW sim + getVarsIndex B))"

text \<open>The velocity variables of the bodies of finite mass that take part in the collisions.\<close>

definition finite_velocity_vars :: "ImpulseSim \<Rightarrow> RigidBodyCollision list \<Rightarrow> int set" where
  "finite_velocity_vars sim cs =
     (\<Union>c \<in> set cs. \<Union>F \<in> {primaryBody c, normalBody c}.
        if isFinite (getMass F) then velocity_vars sim F else {})"

text \<open>\<open>frame W sim sim'\<close>: from \<open>sim\<close> to \<open>sim'\<close> only variables in \<open>W\<close> have changed.\<close>

definition frame :: "int set \<Rightarrow> ImpulseSim \<Rightarrow> ImpulseSim \<Rightarrow> bool" where
  "frame W sim sim' =
     (VX sim' = VX sim \<and> VY sim' = VY sim \<and> VW sim' = VW sim
      \<and> (\<forall>i. i \<notin> W \<longrightarrow> vars sim' i = vars sim i))"

subsection \<open>The loop of the serial handler with the arguments of the handler\<close>

definition serial_loop ::
  "collaborators \<Rightarrow> nat \<Rightarrow> ImpulseSim \<Rightarrow> RigidBodyCollision list \<Rightarrow> bool \<Rightarrow> nat option
     \<Rightarrow> bool option \<Rightarrow> bool option \<Rightarrow> real option \<Rightarrow> bool option
     \<Rightarrow> (error option \<times> hcs_state) option" where
  "serial_loop env fuel sim collisions hybrid opt_totals grouped0 lastPass0 small_velocity0 doPanic0 =
     hcs_loop fuel env
       (hcs_fixed_of collisions hybrid (case grouped0 of None \<Rightarrow> True | Some g \<Rightarrow> g)
          (case lastPass0 of None \<Rightarrow> True | Some l \<Rightarrow> l)
          (case doPanic0 of None \<Rightarrow> True | Some d \<Rightarrow> d))
       (hcs_init sim collisions opt_totals
          (case small_velocity0 of None \<Rightarrow> 1 / 100000
           | Some v \<Rightarrow> if v = 0 then 1 / 100000 else v))"

definition small_at :: "real \<Rightarrow> bool list \<Rightarrow> real list \<Rightarrow> nat \<Rightarrow> bool" where
  "small_at sv jnt b i = (if jnt ! i then \<bar>b ! i\<bar> \<le> sv else b ! i \<ge> - sv)"


text \<open>A collision that is not a joint and closes with exactly the small velocity.\<close>

definition ex_graze :: RigidBodyCollision where
  "ex_graze = \<lparr>collision_id = 4, primaryBody = ex_ball, normalBody = ex_wall,
     r1 = ex_origin, r2 = ex_origin, normal = ex_east,
     normalVelocity = - 1 / 100000, getElasticity = 1, joint = False, contact = False,
     impulse = 0\<rparr>"

subsection \<open>A ball that bounces between two walls\<close>














subsection \<open>Runs of the loop that differ in the counter only\<close>





section \<open>Properties\<close>

subsection \<open>The influence function and the collision matrix\<close>

lemma divn_invn: "divn a m = a * invn m"
  by (cases m) simp_all

lemma influence_alt:
  "influence ci cj B =
    (if isFinite (getMass B) \<and> involved ci B \<and> involved cj B then
       role_factor cj B *
       ((getX (normal ci) * getX (normal cj) + getY (normal ci) * getY (normal cj))
          * invn (getMass B)
        + cross (role_r ci B) (normal ci) * cross (role_r cj B) (normal cj)
          * invn (momentAboutCM B))
     else 0)"
  by (simp add: influence_def involved_def role_factor_def role_r_def cross_def divn_invn
      algebra_simps)

text \<open>
  C4. \<open>influence ci cj B\<close> is zero when \<open>B\<close> has infinite mass, or is not a body of \<open>ci\<close>, or
  is not a body of \<open>cj\<close>. Otherwise, for a body of mass \<open>m\<close> and moment \<open>I\<close>, it is
  \<open>factor \<cdot> [n\<^sub>i.x \<cdot> (n\<^sub>j.x / m \<minus> r\<^sub>i.y \<cdot> (r\<^sub>j \<times> n\<^sub>j) / I) + n\<^sub>i.y \<cdot> (n\<^sub>j.y / m + r\<^sub>i.x \<cdot> (r\<^sub>j \<times> n\<^sub>j) / I)]\<close>,
  where \<open>r\<^sub>i\<close> is \<open>r1\<close> of \<open>ci\<close> if \<open>B\<close> is its primary body and \<open>r2\<close> otherwise, likewise
  \<open>r\<^sub>j\<close>, and the factor is \<open>1\<close> if \<open>B\<close> is the primary body of \<open>cj\<close> and \<open>\<minus>1\<close> otherwise. The
  divisions are divisions of real numbers by a mass and a moment that are not zero; when the
  moment is infinite, the two terms that are divided by it are zero.
\<close>

theorem influence_formula:
  "(\<not> isFinite (getMass B) \<longrightarrow> influence ci cj B = 0)
   \<and> (B \<noteq> primaryBody ci \<and> B \<noteq> normalBody ci \<longrightarrow> influence ci cj B = 0)
   \<and> (B \<noteq> primaryBody cj \<and> B \<noteq> normalBody cj \<longrightarrow> influence ci cj B = 0)
   \<and> ((B = primaryBody ci \<or> B = normalBody ci) \<and> (B = primaryBody cj \<or> B = normalBody cj)
        \<and> getMass B = Fin m \<and> m \<noteq> 0 \<longrightarrow>
        (let ri = (if B = primaryBody ci then r1 ci else r2 ci);
             rj = (if B = primaryBody cj then r1 cj else r2 cj);
             factor = (if B = primaryBody cj then 1 else - 1);
             rj_x_nj = getX rj * getY (normal cj) - getY rj * getX (normal cj)
         in (momentAboutCM B = Fin I \<and> I \<noteq> 0 \<longrightarrow>
               influence ci cj B =
                 factor *
                 (getX (normal ci) * (getX (normal cj) / m - getY ri * rj_x_nj / I)
                  + getY (normal ci) * (getY (normal cj) / m + getX ri * rj_x_nj / I)))
            \<and> (momentAboutCM B = PosInf \<longrightarrow>
               influence ci cj B =
                 factor *
                 (getX (normal ci) * (getX (normal cj) / m)
                  + getY (normal ci) * (getY (normal cj) / m)))))"
  by (auto simp add: influence_def Let_def)

theorem influence_formula_witness:
  "\<not> isFinite (getMass ex_wall) \<and> influence ex_push ex_poke ex_wall = 0
   \<and> ex_ball \<noteq> primaryBody ex_push \<and> ex_ball \<noteq> normalBody ex_push
   \<and> influence ex_push ex_poke ex_ball = 0
   \<and> influence ex_poke ex_push ex_ball = 0
   \<and> ex_block = primaryBody ex_push \<and> ex_block = normalBody ex_poke
   \<and> getMass ex_block = Fin 2 \<and> momentAboutCM ex_block = Fin 4
   \<and> influence ex_push ex_poke ex_block = - 2 / 5
   \<and> influence ex_poke ex_push ex_block = 2 / 5
   \<and> getMass ex_slider = Fin 2 \<and> momentAboutCM ex_slider = PosInf
   \<and> influence (ex_push\<lparr>primaryBody := ex_slider\<rparr>) (ex_poke\<lparr>normalBody := ex_slider\<rparr>)
        ex_slider = - 3 / 10"
  using influence_formula [of ex_wall ex_push ex_poke 1 1]
    influence_formula [of ex_ball ex_push ex_poke 1 1]
    influence_formula [of ex_ball ex_poke ex_push 1 1]
    influence_formula [of ex_block ex_push ex_poke 2 4]
    influence_formula [of ex_block ex_poke ex_push 2 4]
    influence_formula [of ex_slider "ex_push\<lparr>primaryBody := ex_slider\<rparr>"
      "ex_poke\<lparr>normalBody := ex_slider\<rparr>" 2 1]
  by (simp add: ex_push_def ex_poke_def ex_ball_def ex_wall_def ex_block_def ex_slider_def
      ex_east_def ex_origin_def)

lemma entry_sym:
  assumes "primaryBody ci \<noteq> normalBody ci" "primaryBody cj \<noteq> normalBody cj"
  shows "entry ci cj = entry cj ci"
proof -
  define g where "g B = (if isFinite (getMass B) \<and> involved ci B \<and> involved cj B then
        (getX (normal ci) * getX (normal cj) + getY (normal ci) * getY (normal cj))
          * invn (getMass B)
        + cross (role_r ci B) (normal ci) * cross (role_r cj B) (normal cj)
          * invn (momentAboutCM B)
      else 0)" for B
  have ij: "influence ci cj B = role_factor cj B * g B" for B
    by (simp add: influence_alt g_def)
  have ji: "influence cj ci B = role_factor ci B * g B" for B
    by (simp add: influence_alt g_def algebra_simps)
  have gi: "\<not> involved ci B \<Longrightarrow> g B = 0" and gj: "\<not> involved cj B \<Longrightarrow> g B = 0" for B
    by (simp_all add: g_def)
  let ?Pi = "primaryBody ci" and ?Ni = "normalBody ci"
  let ?Pj = "primaryBody cj" and ?Nj = "normalBody cj"
  have L: "entry ci cj = role_factor cj ?Pi * g ?Pi - role_factor cj ?Ni * g ?Ni"
    by (simp add: entry_def ij)
  have R: "entry cj ci = role_factor ci ?Pj * g ?Pj - role_factor ci ?Nj * g ?Nj"
    by (simp add: entry_def ji)
  show ?thesis
  proof (cases "?Pi = ?Pj")
    case PP: True
    show ?thesis
    proof (cases "?Ni = ?Nj")
      case True
      with PP assms show ?thesis unfolding L R by (simp add: role_factor_def)
    next
      case False
      with PP assms have "g ?Ni = 0" "g ?Nj = 0"
        using gj [of ?Ni] gi [of ?Nj] by (auto simp: involved_def)
      with PP assms show ?thesis unfolding L R by (simp add: role_factor_def)
    qed
  next
    case PP: False
    show ?thesis
    proof (cases "?Pi = ?Nj")
      case PN: True
      show ?thesis
      proof (cases "?Ni = ?Pj")
        case True
        with PN PP assms show ?thesis unfolding L R by (simp add: role_factor_def)
      next
        case False
        with PN PP assms have "g ?Ni = 0" "g ?Pj = 0"
          using gj [of ?Ni] gi [of ?Pj] by (auto simp: involved_def)
        with PN PP assms show ?thesis unfolding L R by (simp add: role_factor_def)
      qed
    next
      case PN: False
      with PP have gPi: "g ?Pi = 0"
        using gj [of ?Pi] by (auto simp: involved_def)
      show ?thesis
      proof (cases "?Ni = ?Pj")
        case NP: True
        with PP PN assms have "g ?Nj = 0"
          using gi [of ?Nj] by (auto simp: involved_def)
        with NP PP PN gPi assms show ?thesis unfolding L R by (simp add: role_factor_def)
      next
        case NP: False
        with PP have gPj: "g ?Pj = 0"
          using gi [of ?Pj] by (auto simp: involved_def)
        show ?thesis
        proof (cases "?Ni = ?Nj")
          case True
          with NP PP PN gPi gPj assms show ?thesis unfolding L R by (simp add: role_factor_def)
        next
          case False
          with NP PN have "g ?Ni = 0" "g ?Nj = 0"
            using gj [of ?Ni] gi [of ?Nj] by (auto simp: involved_def)
          with gPi gPj show ?thesis unfolding L R by simp
        qed
      qed
    qed
  qed
qed

lemma makeCollisionMatrix_nth:
  "i < length cs \<Longrightarrow> k < length cs \<Longrightarrow> makeCollisionMatrix cs ! i ! k = entry (cs ! i) (cs ! k)"
  by (simp add: makeCollisionMatrix_def entry_def)

lemma length_makeCollisionMatrix [simp]: "length (makeCollisionMatrix cs) = length cs"
  by (simp add: makeCollisionMatrix_def)

lemma length_makeCollisionMatrix_row [simp]:
  "i < length cs \<Longrightarrow> length (makeCollisionMatrix cs ! i) = length cs"
  by (simp add: makeCollisionMatrix_def)

text \<open>
  C5. The entry \<open>A[i][k]\<close> of the matrix of \<open>makeCollisionMatrix\<close> is
  \<open>influence(ci, ck, ci.primaryBody) \<minus> influence(ci, ck, ci.normalBody)\<close>, and the matrix is
  symmetric over the real numbers: \<open>A[i][k] = A[k][i]\<close> for all \<open>i\<close> and \<open>k\<close>. A collision is
  between two bodies: its primary body and its normal body are different.
\<close>

theorem makeCollisionMatrix_symmetric:
  assumes "\<forall>c \<in> set cs. primaryBody c \<noteq> normalBody c"
    and "i < length cs" and "k < length cs"
  shows "makeCollisionMatrix cs ! i ! k
           = influence (cs ! i) (cs ! k) (primaryBody (cs ! i))
             - influence (cs ! i) (cs ! k) (normalBody (cs ! i))
         \<and> makeCollisionMatrix cs ! i ! k = makeCollisionMatrix cs ! k ! i"
proof -
  from assms have "primaryBody (cs ! i) \<noteq> normalBody (cs ! i)"
    and "primaryBody (cs ! k) \<noteq> normalBody (cs ! k)"
    by simp_all
  then have "entry (cs ! i) (cs ! k) = entry (cs ! k) (cs ! i)"
    by (rule entry_sym)
  with assms(2,3) show ?thesis
    by (simp add: makeCollisionMatrix_nth) (simp add: entry_def)
qed

theorem makeCollisionMatrix_symmetric_witness:
  "primaryBody ex_push \<noteq> normalBody ex_push \<and> primaryBody ex_poke \<noteq> normalBody ex_poke
     \<and> makeCollisionMatrix [ex_push, ex_poke] ! 0 ! 1 = - 2 / 5
     \<and> makeCollisionMatrix [ex_push, ex_poke] ! 1 ! 0 = - 2 / 5"
proof -
  have d: "\<forall>c \<in> set [ex_push, ex_poke]. primaryBody c \<noteq> normalBody c"
    by (simp add: ex_push_def ex_poke_def ex_ball_def ex_block_def ex_wall_def)
  have e: "makeCollisionMatrix [ex_push, ex_poke] ! 0 ! 1 = - 2 / 5"
    by (simp add: makeCollisionMatrix_def influence_def ex_push_def ex_poke_def ex_ball_def
        ex_block_def ex_wall_def ex_east_def ex_origin_def)
  from makeCollisionMatrix_symmetric [OF d, of 0 1] d e show ?thesis
    by (simp del: One_nat_def)
qed

subsection \<open>The right-hand side of the simultaneous handler\<close>

text \<open>
  C2, as stated: \<open>b[k]\<close> is \<open>normalVelocity \<cdot> 1\<close> for a joint and
  \<open>normalVelocity \<cdot> (1 + elasticity)\<close> for a collision that is not a joint. The source asks
  \<open>ck.contact()\<close>, not \<open>ck.joint\<close>: for a resting contact that is not a joint the factor is 1.
\<close>

theorem simultaneous_b_counterexample:
  "simultaneous_b [ex_resting] ! 0
     \<noteq> normalVelocity ex_resting
         * (if joint ex_resting then 1 else 1 + getElasticity ex_resting)"
  by (simp add: simultaneous_b_def ex_resting_def)

text \<open>
  C2, amended: in the simultaneous strategy, for every contact \<open>k\<close> the entry of the
  right-hand side is \<open>b[k] = normalVelocity \<cdot> 1\<close> when \<open>ck.contact()\<close> holds (joints and
  resting contacts), and \<open>b[k] = normalVelocity \<cdot> (1 + elasticity)\<close> when it does not.
\<close>

theorem simultaneous_b_nth:
  assumes "k < length collisions"
  shows "simultaneous_b collisions ! k =
           (if contact (collisions ! k) then normalVelocity (collisions ! k) * 1
            else normalVelocity (collisions ! k) * (1 + getElasticity (collisions ! k)))"
  using assms by (simp add: simultaneous_b_def)

theorem simultaneous_b_nth_witness:
  "1 < length [ex_resting, ex_hit] \<and> simultaneous_b [ex_resting, ex_hit] ! 0 = - 1 / 10
   \<and> simultaneous_b [ex_resting, ex_hit] ! 1 = - 2"
  using simultaneous_b_nth [of 0 "[ex_resting, ex_hit]"]
    simultaneous_b_nth [of 1 "[ex_resting, ex_hit]"]
  by (simp add: ex_resting_def ex_hit_def)

subsection \<open>Applying an impulse\<close>

text \<open>
  C7. \<open>applyImpulse(c, j)\<close> throws if and only if \<open>c\<close> is not a joint and
  \<open>j < \<minus>TINY_IMPULSE\<close>. When \<open>c\<close> is not a joint and \<open>\<minus>TINY_IMPULSE \<le> j < 0\<close>, the impulse is
  clamped to zero: zero is recorded as the impulse of \<open>c\<close>, and the simulation, with the
  velocities of all bodies, stays as it is.
\<close>

theorem applyImpulse_negative:
  "((\<exists>e. applyImpulse sim c j = Inl e) \<longleftrightarrow> \<not> joint c \<and> j < - TINY_IMPULSE)
   \<and> (\<not> joint c \<and> - TINY_IMPULSE \<le> j \<and> j < 0 \<longrightarrow>
        applyImpulse sim c j = Inr (sim, c\<lparr>impulse := 0\<rparr>))"
  by (auto simp add: applyImpulse_def Let_def TINY_IMPULSE_def)

theorem applyImpulse_negative_witness:
  "\<not> joint ex_hit \<and> - TINY_IMPULSE \<le> - 1 / 10 ^ 13 \<and> - 1 / 10 ^ 13 < (0::real)
   \<and> applyImpulse (ex_sim HYBRID) ex_hit (- 1 / 10 ^ 13)
       = Inr (ex_sim HYBRID, ex_hit\<lparr>impulse := 0\<rparr>)
   \<and> (\<exists>e. applyImpulse (ex_sim HYBRID) ex_hit (- 1 / 10 ^ 11) = Inl e)"
proof -
  have a: "\<not> joint ex_hit"
    by (simp add: ex_hit_def)
  have b: "- TINY_IMPULSE \<le> - 1 / 10 ^ 13" "- 1 / 10 ^ 13 < (0::real)"
    "(- 1 / 10 ^ 11 :: real) < - TINY_IMPULSE"
    by (simp_all add: TINY_IMPULSE_def)
  from applyImpulse_negative [of "ex_sim HYBRID" ex_hit "- 1 / 10 ^ 13"] a b
  have c: "applyImpulse (ex_sim HYBRID) ex_hit (- 1 / 10 ^ 13)
             = Inr (ex_sim HYBRID, ex_hit\<lparr>impulse := 0\<rparr>)"
    by blast
  from applyImpulse_negative [of "ex_sim HYBRID" ex_hit "- 1 / 10 ^ 11"] a b
  have d: "\<exists>e. applyImpulse (ex_sim HYBRID) ex_hit (- 1 / 10 ^ 11) = Inl e"
    by blast
  from a b c d show ?thesis
    by blast
qed

subsection \<open>An empty list of collisions\<close>

text \<open>
  C10. \<open>handleCollisions\<close> with an empty list of collisions throws before it looks at the
  strategy, whatever the strategy and the collaborators are, and leaves the simulation, with
  the velocities of all bodies, as it is.
\<close>

theorem handleCollisions_empty:
  "handleCollisions env fuel sim [] opt_totals = Some (Throws EmptyArray, sim, [], opt_totals)"
  by (simp add: handleCollisions_def)

subsection \<open>Only the velocities of bodies of finite mass are written\<close>

lemma frame_refl [simp]: "frame W sim sim"
  by (simp add: frame_def)

lemma frame_trans: "frame W s1 s2 \<Longrightarrow> frame W s2 s3 \<Longrightarrow> frame W s1 s3"
  by (simp add: frame_def)

lemma frame_mono: "frame W s1 s2 \<Longrightarrow> W \<subseteq> W' \<Longrightarrow> frame W' s1 s2"
  by (auto simp add: frame_def)

lemma frame_print [simp]: "frame W sim (print d sim)"
  by (simp add: frame_def print_def)

lemma frame_incrSequence [simp]: "frame W sim (incrSequence sim idxs)"
  by (simp add: frame_def incrSequence_def)

lemma frame_simRNG [simp]: "frame W sim (sim\<lparr>simRNG := r\<rparr>)"
  by (simp add: frame_def)

lemma setValue_layout [simp]:
  "VX (setValue sim idx v c) = VX sim" "VY (setValue sim idx v c) = VY sim"
  "VW (setValue sim idx v c) = VW sim"
  by (simp_all add: setValue_def)

lemma frame_setValue: "idx \<in> W \<Longrightarrow> frame W sim s \<Longrightarrow> frame W sim (setValue s idx v c)"
  by (simp add: frame_def setValue_def)

lemma finite_velocity_varsI:
  "c \<in> set cs \<Longrightarrow> F = primaryBody c \<or> F = normalBody c \<Longrightarrow> isFinite (getMass F)
     \<Longrightarrow> i \<in> velocity_vars sim F \<Longrightarrow> i \<in> finite_velocity_vars sim cs"
  unfolding finite_velocity_vars_def by (rule UN_I [of c], assumption, rule UN_I [of F]) auto

lemma in_fvv_primary:
  "isFinite (getMass (primaryBody cd)) \<Longrightarrow>
     VX sim + getVarsIndex (primaryBody cd) \<in> finite_velocity_vars sim [cd]
   \<and> VY sim + getVarsIndex (primaryBody cd) \<in> finite_velocity_vars sim [cd]
   \<and> VW sim + getVarsIndex (primaryBody cd) \<in> finite_velocity_vars sim [cd]"
  by (intro conjI; rule finite_velocity_varsI [of cd _ "primaryBody cd"];
      simp add: velocity_vars_def)

lemma in_fvv_normal:
  "isFinite (getMass (normalBody cd)) \<Longrightarrow>
     VX sim + getVarsIndex (normalBody cd) \<in> finite_velocity_vars sim [cd]
   \<and> VY sim + getVarsIndex (normalBody cd) \<in> finite_velocity_vars sim [cd]
   \<and> VW sim + getVarsIndex (normalBody cd) \<in> finite_velocity_vars sim [cd]"
  by (intro conjI; rule finite_velocity_varsI [of cd _ "normalBody cd"];
      simp add: velocity_vars_def)

lemma applyImpulse_frame:
  assumes "applyImpulse sim cd j = Inr (sim', cd')"
  shows "frame (finite_velocity_vars sim [cd]) sim sim'"
proof -
  note P = in_fvv_primary [of cd sim] and N = in_fvv_normal [of cd sim]
  from assms show ?thesis
    apply (simp add: applyImpulse_def Let_def split: if_splits)
    apply (clarsimp; intro frame_setValue frame_refl; simp add: P N)+
    done
qed

lemma finite_velocity_vars_Cons:
  "finite_velocity_vars sim (c # cs)
     = finite_velocity_vars sim [c] \<union> finite_velocity_vars sim cs"
  by (simp add: finite_velocity_vars_def)

lemma finite_velocity_vars_layout:
  "VX s' = VX s \<Longrightarrow> VY s' = VY s \<Longrightarrow> VW s' = VW s
     \<Longrightarrow> finite_velocity_vars s' cs = finite_velocity_vars s cs"
  by (simp add: finite_velocity_vars_def velocity_vars_def)

lemma applyImpulses_frame:
  "applyImpulses sim xs imp = (r, sim', cs', imp')
     \<Longrightarrow> frame (finite_velocity_vars sim (map fst xs)) sim sim'"
proof (induction xs arbitrary: sim imp r sim' cs' imp')
  case Nil
  then show ?case by simp
next
  case (Cons x xs)
  obtain c j where x: "x = (c, j)" by (cases x)
  show ?case
  proof (cases "applyImpulse sim c j")
    case (Inl e)
    with Cons.prems x show ?thesis by (simp add: Let_def)
  next
    case (Inr p)
    obtain s1 c1 where p: "p = (s1, c1)" by (cases p)
    obtain r2 s2 cs2 imp2
      where rec: "applyImpulses s1 xs (imp \<or> j > TINY_IMPULSE) = (r2, s2, cs2, imp2)"
      by (metis prod_cases4)
    from Cons.prems x Inr p rec have s2: "sim' = s2"
      by (simp add: Let_def)
    from applyImpulse_frame Inr p have f1: "frame (finite_velocity_vars sim [c]) sim s1"
      by simp
    then have lay: "VX s1 = VX sim" "VY s1 = VY sim" "VW s1 = VW sim"
      by (simp_all add: frame_def)
    from Cons.IH [OF rec] have "frame (finite_velocity_vars s1 (map fst xs)) s1 s2" .
    then have f2: "frame (finite_velocity_vars sim (map fst xs)) s1 s2"
      by (simp add: finite_velocity_vars_layout [OF lay])
    have "frame (finite_velocity_vars sim (map fst (x # xs))) sim s2"
      apply (rule frame_trans [of _ sim s1 s2])
       apply (rule frame_mono [OF f1])
       apply (simp add: x finite_velocity_vars_Cons [of sim c "map fst xs"])
      apply (rule frame_mono [OF f2])
      apply (simp add: x finite_velocity_vars_Cons [of sim c "map fst xs"])
      done
    with s2 show ?thesis by simp
  qed
qed

subsection \<open>One round of the loop of the serial handler\<close>

lemma hcs_focus_range:
  assumes "hcs_focus env rng sv jnt b = (focus, rng')"
  shows "(focus = - 1 \<and> (\<forall>j \<in> set (take (length b) (fst (randomInts env rng (length b)))). \<not> large_at sv jnt b j))
         \<or> (0 \<le> focus \<and> nat focus < length b \<and> large_at sv jnt b (nat focus))"
proof (cases "find (large_at sv jnt b) (take (length b) (fst (randomInts env rng (length b))))")
  case None
  with assms have "focus = - 1"
    by (simp add: hcs_focus_def Let_def split: prod.splits)
  with None show ?thesis by (simp add: find_None_iff)
next
  case (Some j)
  with assms have f: "focus = int j"
    by (simp add: hcs_focus_def Let_def split: prod.splits)
  from Some have "large_at sv jnt b j" by (auto simp add: find_Some_iff)
  with f show ?thesis by (simp add: large_at_def)
qed

lemma hcs_tick_simps [simp]:
  "st_b (hcs_tick env fx st) = st_b st" "st_j2 (hcs_tick env fx st) = st_j2 st"
  "st_totals (hcs_tick env fx st) = st_totals st"
  "st_loopCtr (hcs_tick env fx st) = Suc (st_loopCtr st)"
  by (simp_all add: hcs_tick_def Let_def)

lemma hcs_loop_cases [consumes 1, case_names exit throw last continue]:
  assumes run: "hcs_loop (Suc fuel) env fx st = Some (r, st')"
  obtains
    rng where "hcs_focus env (simRNG (st_sim (hcs_tick env fx st)))
                 (st_small_velocity (hcs_tick env fx st)) (fx_joint fx) (st_b st) = (- 1, rng)"
      and "\<not> fx_lastPass fx" and "r = None"
      and "st' = (hcs_tick env fx st)\<lparr>st_sim := (st_sim (hcs_tick env fx st))\<lparr>simRNG := rng\<rparr>\<rparr>"
  | focus rng err b' j2' sim' where
      "hcs_focus env (simRNG (st_sim (hcs_tick env fx st)))
                 (st_small_velocity (hcs_tick env fx st)) (fx_joint fx) (st_b st) = (focus, rng)"
      and "hcs_handle env (fx_hybrid fx) (fx_grouped fx) (st_small_velocity (hcs_tick env fx st))
                       focus (fx_joint fx) (fx_e fx) (st_b st) (st_j2 st)
                       (fx_collisions fx) (fx_A fx) ((st_sim (hcs_tick env fx st))\<lparr>simRNG := rng\<rparr>)
             = (Some err, b', j2', sim')"
      and "r = Some err" and "st' = (hcs_tick env fx st)\<lparr>st_sim := sim'\<rparr>"
  | rng b' j2' sim' where
      "hcs_focus env (simRNG (st_sim (hcs_tick env fx st)))
                 (st_small_velocity (hcs_tick env fx st)) (fx_joint fx) (st_b st) = (- 1, rng)"
      and "fx_lastPass fx"
      and "hcs_handle env (fx_hybrid fx) (fx_grouped fx) (st_small_velocity (hcs_tick env fx st))
                       (- 1) (fx_joint fx) (fx_e fx) (st_b st) (st_j2 st)
                       (fx_collisions fx) (fx_A fx) ((st_sim (hcs_tick env fx st))\<lparr>simRNG := rng\<rparr>)
             = (None, b', j2', sim')"
      and "r = None"
      and "st' = (hcs_tick env fx st)\<lparr>st_b := b', st_j2 := j2', st_sim := sim',
                    st_totals := map_option Suc (st_totals st)\<rparr>"
  | focus rng b' j2' sim' where
      "hcs_focus env (simRNG (st_sim (hcs_tick env fx st)))
                 (st_small_velocity (hcs_tick env fx st)) (fx_joint fx) (st_b st) = (focus, rng)"
      and "focus > - 1"
      and "hcs_handle env (fx_hybrid fx) (fx_grouped fx) (st_small_velocity (hcs_tick env fx st))
                       focus (fx_joint fx) (fx_e fx) (st_b st) (st_j2 st)
                       (fx_collisions fx) (fx_A fx) ((st_sim (hcs_tick env fx st))\<lparr>simRNG := rng\<rparr>)
             = (None, b', j2', sim')"
      and "hcs_loop fuel env fx ((hcs_tick env fx st)\<lparr>st_b := b', st_j2 := j2', st_sim := sim',
                    st_totals := map_option Suc (st_totals st)\<rparr>)
             = Some (r, st')"
proof -
  let ?st0 = "hcs_tick env fx st"
  obtain focus rng where foc: "hcs_focus env (simRNG (st_sim ?st0))
                 (st_small_velocity ?st0) (fx_joint fx) (st_b st) = (focus, rng)"
    by (cases "hcs_focus env (simRNG (st_sim ?st0))
                 (st_small_velocity ?st0) (fx_joint fx) (st_b st)")
  obtain r2 b' j2' sim' where hh: "hcs_handle env (fx_hybrid fx) (fx_grouped fx) (st_small_velocity ?st0)
                       focus (fx_joint fx) (fx_e fx) (st_b st) (st_j2 st)
                       (fx_collisions fx) (fx_A fx) ((st_sim ?st0)\<lparr>simRNG := rng\<rparr>) = (r2, b', j2', sim')"
    by (metis prod_cases4)
  from hcs_focus_range [OF foc] have fr: "focus = - 1 \<or> focus > - 1" by auto
  show thesis
  proof (cases "focus = - 1 \<and> \<not> fx_lastPass fx")
    case True
    with run foc have "r = None"
      "st' = ?st0\<lparr>st_sim := (st_sim ?st0)\<lparr>simRNG := rng\<rparr>\<rparr>"
      by (simp_all add: Let_def)
    with True foc that(1) show thesis by simp
  next
    case False
    show thesis
    proof (cases r2)
      case (Some err)
      with run foc hh False have "r = Some err" "st' = ?st0\<lparr>st_sim := sim'\<rparr>"
        by (auto simp add: Let_def)
      with Some foc hh that(2) show thesis by simp
    next
      case None
      show thesis
      proof (cases "focus > - 1")
        case True
        with run foc hh False None
        have "hcs_loop fuel env fx (?st0\<lparr>st_b := b', st_j2 := j2', st_sim := sim',
                    st_totals := map_option Suc (st_totals st)\<rparr>) = Some (r, st')"
          by (auto simp add: Let_def)
        with True None foc hh that(4) show thesis by simp
      next
        case F: False
        with fr have m: "focus = - 1" by simp
        with False have lp: "fx_lastPass fx" by simp
        from run foc hh m lp None
        have "r = None" "st' = ?st0\<lparr>st_b := b', st_j2 := j2', st_sim := sim',
                    st_totals := map_option Suc (st_totals st)\<rparr>"
          by (auto simp add: Let_def)
        with m lp None foc hh that(3) show thesis by simp
      qed
    qed
  qed
qed




declare hcs_loop.simps(2) [simp del]

lemma hcs_handle_frame:
  "hcs_handle env hybrid grouped sv focus jnt e b j2 cs A sim = (r, b', j2', sim') \<Longrightarrow> frame {} sim sim'"
  by (auto simp add: hcs_handle_def Let_def frame_def print_def split: prod.splits if_splits)

lemma hcs_tick_frame: "frame {} (st_sim st) (st_sim (hcs_tick env fx st))"
  by (simp add: hcs_tick_def Let_def frame_def print_def)

lemma hcs_loop_frame:
  "hcs_loop fuel env fx st = Some (r, st') \<Longrightarrow> frame {} (st_sim st) (st_sim st')"
proof (induction fuel arbitrary: st)
  case 0
  then show ?case by simp
next
  case (Suc fuel)
  note t = hcs_tick_frame [of st env fx]
  from Suc.prems show ?case
  proof (cases rule: hcs_loop_cases)
    case (exit rng)
    with t show ?thesis by (simp add: frame_def)
  next
    case (throw focus rng err b' j2' sim')
    from hcs_handle_frame [OF throw(2)] t throw(4) show ?thesis by (simp add: frame_def)
  next
    case (last rng b' j2' sim')
    from hcs_handle_frame [OF last(3)] t last(5) show ?thesis by (simp add: frame_def)
  next
    case (continue focus rng b' j2' sim')
    from Suc.IH [OF continue(4)] hcs_handle_frame [OF continue(3)] t
    show ?thesis by (simp add: frame_def)
  qed
qed

lemma finite_velocity_vars_mono:
  "set xs \<subseteq> set ys \<Longrightarrow> finite_velocity_vars sim xs \<subseteq> finite_velocity_vars sim ys"
  unfolding finite_velocity_vars_def by (rule UN_mono) auto

lemma applyImpulses_zip_frame:
  assumes "applyImpulses s (zip cs js) imp = (r, s', cs', imp')"
    and "frame {} sim s"
  shows "frame (finite_velocity_vars sim cs) sim s'"
proof -
  from assms(2) have lay: "VX s = VX sim" "VY s = VY sim" "VW s = VW sim"
    by (simp_all add: frame_def)
  have "set (map fst (zip cs js)) \<subseteq> set cs"
    by (auto dest: set_zip_leftD)
  then have sub: "finite_velocity_vars sim (map fst (zip cs js)) \<subseteq> finite_velocity_vars sim cs"
    by (rule finite_velocity_vars_mono)
  from applyImpulses_frame [OF assms(1)]
  have "frame (finite_velocity_vars sim (map fst (zip cs js))) s s'"
    by (simp add: finite_velocity_vars_layout [OF lay])
  then have "frame (finite_velocity_vars sim cs) s s'"
    using sub by (rule frame_mono)
  moreover from assms(2) have "frame (finite_velocity_vars sim cs) sim s"
    by (rule frame_mono) simp
  ultimately show ?thesis
    by (rule frame_trans [rotated])
qed

lemma handleCollisionsSimultaneous_frame:
  assumes "handleCollisionsSimultaneous env sim cs tot = (out, sim', cs', tot')"
  shows "frame (finite_velocity_vars sim cs) sim sim'"
proof -
  obtain jout err rng where cf: "compute_forces env (simRNG sim) (makeCollisionMatrix cs)
      (replicate (length cs) 0) (simultaneous_b cs) (map joint cs) False (getTime sim) = ((jout, err), rng)"
    by (metis surj_pair)
  let ?j = "fixlen (length cs) jout"
  let ?sim1 = "sim\<lparr>simRNG := rng\<rparr>"
  let ?sim2 = "if DEBUG env \<and> err \<noteq> - 1 then print (ComputeImpulsesWarning err) ?sim1 else ?sim1"
  have f2: "frame {} sim ?sim2" by (simp add: frame_def print_def)
  obtain r s3 cs3 imp where ai: "applyImpulses ?sim2 (zip cs ?j) False = (r, s3, cs3, imp)"
    by (metis prod_cases4)
  from applyImpulses_zip_frame [OF ai f2] have f3: "frame (finite_velocity_vars sim cs) sim s3" .
  show ?thesis
  proof (cases "DEBUG env \<and> err \<noteq> - 1
                \<and> \<not> checkForceAccel (1 / 10 ^ 4) ?j (vectorAdd (matrixMultiply (makeCollisionMatrix cs) ?j) (simultaneous_b cs)) (map joint cs)")
    case True
    with assms cf have "sim' = ?sim1"
      by (simp add: handleCollisionsSimultaneous_def Let_def)
    then show ?thesis by (simp add: frame_def)
  next
    case False
    with assms cf ai have "sim' = s3 \<or> sim' = incrSequence s3 [1, 3]"
      by (auto simp add: handleCollisionsSimultaneous_def Let_def split: option.splits if_splits)
    with f3 show ?thesis by (auto simp add: frame_def incrSequence_def)
  qed
qed

lemma handleCollisionsSerial_frame:
  assumes "handleCollisionsSerial env fuel sim cs hybrid tot g l sv dp = Some (out, sim', cs', tot')"
  shows "frame (finite_velocity_vars sim cs) sim sim'"
proof -
  define fx where "fx = hcs_fixed_of cs hybrid (case g of None \<Rightarrow> True | Some g \<Rightarrow> g)
     (case l of None \<Rightarrow> True | Some l \<Rightarrow> l) (case dp of None \<Rightarrow> True | Some d \<Rightarrow> d)"
  define st0 where "st0 = hcs_init sim cs tot (case sv of None \<Rightarrow> 1 / 100000
                           | Some v \<Rightarrow> if v = 0 then 1 / 100000 else v)"
  have s0: "st_sim st0 = sim" by (simp add: st0_def hcs_init_def)
  from assms obtain r st where run: "hcs_loop fuel env fx st0 = Some (r, st)"
    by (cases "hcs_loop fuel env fx st0") (auto simp add: handleCollisionsSerial_def Let_def fx_def st0_def)
  from hcs_loop_frame [OF run] s0 have f1: "frame {} sim (st_sim st)" by simp
  show ?thesis
  proof (cases r)
    case (Some err)
    with assms run have "sim' = st_sim st"
      by (simp add: handleCollisionsSerial_def Let_def fx_def st0_def)
    with f1 show ?thesis by (simp add: frame_def)
  next
    case None
    obtain r2 s3 cs3 imp where ai: "applyImpulses (st_sim st) (zip cs (st_j2 st)) False = (r2, s3, cs3, imp)"
      by (metis prod_cases4)
    from applyImpulses_zip_frame [OF ai f1] have f3: "frame (finite_velocity_vars sim cs) sim s3" .
    from assms run None ai have "frame {} s3 sim'"
      by (auto simp add: handleCollisionsSerial_def Let_def fx_def st0_def frame_def print_def incrSequence_def
          split: option.splits if_splits)
    then have "frame (finite_velocity_vars sim cs) s3 sim'" by (rule frame_mono) simp
    with f3 show ?thesis by (rule frame_trans)
  qed
qed

lemma handleCollisions_frame:
  assumes "handleCollisions env fuel sim cs tot = Some (out, sim', cs', tot')"
  shows "frame (finite_velocity_vars sim cs) sim sim'"
  using assms
  by (auto simp add: handleCollisions_def split: if_splits CollisionHandling.splits
      dest: handleCollisionsSimultaneous_frame handleCollisionsSerial_frame)


text \<open>
  C6. After a call of \<open>handleCollisions\<close>, whatever the strategy and however the call ends,
  the linear velocity and the angular velocity of every body of infinite mass are what they
  were before: only velocity variables of bodies of finite mass are written. The velocities
  live in the variables of the simulation; no body of finite mass that takes part shares a
  velocity variable with the body of infinite mass.
\<close>

theorem handleCollisions_infinite_mass:
  assumes "handleCollisions env fuel sim cs tot = Some (out, sim', cs', tot')"
    and "\<not> isFinite (getMass B)"
    and "\<forall>c \<in> set cs. \<forall>F \<in> {primaryBody c, normalBody c}.
           isFinite (getMass F) \<longrightarrow> velocity_vars sim F \<inter> velocity_vars sim B = {}"
  shows "body_velocity sim' B = body_velocity sim B"
proof -
  from assms(3) have "velocity_vars sim B \<inter> finite_velocity_vars sim cs = {}"
    by (auto simp add: finite_velocity_vars_def split: if_splits)
  with handleCollisions_frame [OF assms(1)] show ?thesis
    by (auto simp add: frame_def body_velocity_def velocity_vars_def)
qed

lemma ex_hit_matrix: "makeCollisionMatrix [ex_hit] = [[1]]"
  by (simp add: makeCollisionMatrix_def influence_def ex_hit_def ex_ball_def ex_wall_def
      ex_east_def ex_origin_def)

lemma ex_hit_apply:
  "\<exists>s. applyImpulse (ex_sim h) ex_hit 2 = Inr (s, ex_hit\<lparr>impulse := 2\<rparr>)
     \<and> body_velocity s ex_ball = (2, 0, 0) \<and> body_velocity s ex_wall = (0, 0, 0)"
  by (simp add: applyImpulse_def Let_def TINY_IMPULSE_def SMALL_IMPULSE_def ex_hit_def
      ex_ball_def ex_wall_def ex_east_def ex_origin_def ex_sim_def setValue_def body_velocity_def)

lemma ex_hit_simultaneous:
  "\<exists>s. handleCollisions (ex_env False) 0 (ex_sim SIMULTANEOUS) [ex_hit] None
       = Some (Returns True, s, [ex_hit\<lparr>impulse := 2\<rparr>], None)
     \<and> body_velocity s ex_ball = (2, 0, 0) \<and> body_velocity s ex_wall = (0, 0, 0)"
proof -
  from ex_hit_apply [of SIMULTANEOUS] obtain s
    where s: "applyImpulse (ex_sim SIMULTANEOUS) ex_hit 2 = Inr (s, ex_hit\<lparr>impulse := 2\<rparr>)"
      and v: "body_velocity s ex_ball = (2, 0, 0)" "body_velocity s ex_wall = (0, 0, 0)"
    by blast
  have b: "simultaneous_b [ex_hit] = [- 2]" by (simp add: simultaneous_b_def ex_hit_def)
  have j: "joint ex_hit = False" by (simp add: ex_hit_def)
  have sim: "simRNG (ex_sim SIMULTANEOUS) = 0" "collisionHandling (ex_sim SIMULTANEOUS) = SIMULTANEOUS"
    "(ex_sim SIMULTANEOUS)\<lparr>simRNG := 0\<rparr> = ex_sim SIMULTANEOUS"
    by (simp_all add: ex_sim_def)
  have "handleCollisions (ex_env False) 0 (ex_sim SIMULTANEOUS) [ex_hit] None
       = Some (Returns True, incrSequence s [1, 3], [ex_hit\<lparr>impulse := 2\<rparr>], None)"
    by (simp add: handleCollisions_def handleCollisionsSimultaneous_def ex_hit_matrix b j sim
        ex_env_def ex_solver_def fixlen_def s TINY_IMPULSE_def)
  moreover have "body_velocity (incrSequence s [1, 3]) B = body_velocity s B" for B
    by (simp add: body_velocity_def incrSequence_def)
  ultimately show ?thesis using v by simp
qed


theorem handleCollisions_infinite_mass_witness:
  "\<not> isFinite (getMass ex_wall)
   \<and> velocity_vars (ex_sim SIMULTANEOUS) ex_ball \<inter> velocity_vars (ex_sim SIMULTANEOUS) ex_wall = {}
   \<and> fst (the (handleCollisions (ex_env False) 0 (ex_sim SIMULTANEOUS) [ex_hit] None))
       = Returns True
   \<and> body_velocity
        (fst (snd (the (handleCollisions (ex_env False) 0 (ex_sim SIMULTANEOUS) [ex_hit] None))))
        ex_ball = (2, 0, 0)
   \<and> body_velocity
        (fst (snd (the (handleCollisions (ex_env False) 0 (ex_sim SIMULTANEOUS) [ex_hit] None))))
        ex_wall = body_velocity (ex_sim SIMULTANEOUS) ex_wall"
proof -
  from ex_hit_simultaneous obtain s
    where run: "handleCollisions (ex_env False) 0 (ex_sim SIMULTANEOUS) [ex_hit] None
                  = Some (Returns True, s, [ex_hit\<lparr>impulse := 2\<rparr>], None)"
      and ball: "body_velocity s ex_ball = (2, 0, 0)"
    by blast
  have inf: "\<not> isFinite (getMass ex_wall)"
    by (simp add: ex_wall_def)
  have dis: "velocity_vars (ex_sim SIMULTANEOUS) ex_ball
               \<inter> velocity_vars (ex_sim SIMULTANEOUS) ex_wall = {}"
    by (simp add: velocity_vars_def ex_sim_def ex_ball_def ex_wall_def)
  have lay: "\<forall>c \<in> set [ex_hit]. \<forall>F \<in> {primaryBody c, normalBody c}.
           isFinite (getMass F) \<longrightarrow>
           velocity_vars (ex_sim SIMULTANEOUS) F \<inter> velocity_vars (ex_sim SIMULTANEOUS) ex_wall = {}"
    using dis by (simp add: ex_hit_def ex_wall_def)
  from handleCollisions_infinite_mass [OF run inf lay]
  have "body_velocity s ex_wall = body_velocity (ex_sim SIMULTANEOUS) ex_wall" .
  with run ball inf dis show ?thesis
    by simp
qed

subsection \<open>The result of the serial handler\<close>




lemma length_foldl_update:
  "length (foldl (\<lambda>js k. js[f k := g js k]) j2 ks) = length j2"
  by (induction ks arbitrary: j2) simp_all

lemma hcs_handle_length:
  assumes "hcs_handle env hybrid grouped sv focus jnt e b j2 cs A sim = (r, b', j2', sim')"
  shows "length b' = length b \<and> length j2' = length j2"
  using assms
  by (auto simp add: hcs_handle_def Let_def length_foldl_update split: prod.splits if_splits)

















subsection \<open>The velocities at the exit of the loop of the serial handler\<close>

lemma not_large_small:
  "i < length b \<Longrightarrow> length jnt = length b \<Longrightarrow> \<not> large_at sv jnt b i \<Longrightarrow> small_at sv jnt b i"
  by (auto simp add: large_at_def small_at_def Let_def)

lemma hcs_loop_small:
  assumes run: "hcs_loop fuel env fx st = Some (None, st')"
    and len: "length (st_b st) = n" "length (fx_joint fx) = n"
    and perm: "\<And>rng. {..<n} \<subseteq> set (take n (fst (randomInts env rng n)))"
    and lp: "\<not> fx_lastPass fx"
    and i: "i < n"
  shows "small_at (st_small_velocity st') (fx_joint fx) (st_b st') i"
  using run len(1)
proof (induction fuel arbitrary: st)
  case 0
  then show ?case by simp
next
  case (Suc fuel)
  let ?st0 = "hcs_tick env fx st"
  from Suc.prems(1) show ?case
  proof (cases rule: hcs_loop_cases)
    case (exit rng)
    from hcs_focus_range [OF exit(1)] Suc.prems(2)
    have "\<forall>j \<in> set (take n (fst (randomInts env (simRNG (st_sim ?st0)) n))).
            \<not> large_at (st_small_velocity ?st0) (fx_joint fx) (st_b st) j"
      by simp
    with perm [of "simRNG (st_sim ?st0)"] i
    have "\<not> large_at (st_small_velocity ?st0) (fx_joint fx) (st_b st) i"
      by auto
    with i Suc.prems(2) len(2)
    have "small_at (st_small_velocity ?st0) (fx_joint fx) (st_b st) i"
      by (simp add: not_large_small)
    with exit(4) show ?thesis by simp
  next
    case (throw focus rng err b' j2' sim')
    then show ?thesis by simp
  next
    case (last rng b' j2' sim')
    with lp show ?thesis by simp
  next
    case (continue focus rng b' j2' sim')
    let ?st2 = "?st0\<lparr>st_b := b', st_j2 := j2', st_sim := sim',
                    st_totals := map_option Suc (st_totals st)\<rparr>"
    from hcs_handle_length [OF continue(3)] Suc.prems(2) have l2: "length (st_b ?st2) = n"
      by simp
    from Suc.IH [OF continue(4) l2] show ?thesis .
  qed
qed

text \<open>
  What the loop does ensure when the last pass is off and \<open>randomInts(n)\<close> lists every index
  below \<open>n\<close>: when it is left without a throw, every collision that is not a joint has
  \<open>b[i] \<ge> \<minus>\<epsilon>\<close> and every joint has \<open>|b[i]| \<le> \<epsilon>\<close>, where \<open>\<epsilon>\<close> is the small velocity in effect at
  the exit. Equality is not excluded.
\<close>

lemma serial_loop_exit_weak:
  assumes run: "serial_loop env fuel sim cs hybrid tot g (Some False) sv dp = Some (None, st)"
    and perm: "\<And>rng. {..<length cs}
                 \<subseteq> set (take (length cs) (fst (randomInts env rng (length cs))))"
    and i: "i < length cs"
  shows "if joint (cs ! i) then \<bar>st_b st ! i\<bar> \<le> st_small_velocity st
         else st_b st ! i \<ge> - st_small_velocity st"
proof -
  let ?fx = "hcs_fixed_of cs hybrid (case g of None \<Rightarrow> True | Some g \<Rightarrow> g) False
               (case dp of None \<Rightarrow> True | Some d \<Rightarrow> d)"
  let ?sv = "case sv of None \<Rightarrow> 1 / 100000 | Some v \<Rightarrow> if v = 0 then 1 / 100000 else v"
  let ?st0 = "hcs_init sim cs tot ?sv"
  have fx: "fx_joint ?fx = map joint cs" "fx_lastPass ?fx = False"
    by (simp_all add: hcs_fixed_of_def)
  have "small_at (st_small_velocity st) (fx_joint ?fx) (st_b st) i"
  proof (rule hcs_loop_small [where n = "length cs" and st = ?st0 and env = env and fuel = fuel])
    show "hcs_loop fuel env ?fx ?st0 = Some (None, st)"
      using run by (simp add: serial_loop_def)
    show "length (st_b ?st0) = length cs" by (simp add: hcs_init_def)
    show "length (fx_joint ?fx) = length cs" by (simp add: fx)
    show "{..<length cs} \<subseteq> set (take (length cs) (fst (randomInts env rng (length cs))))" for rng
      by (rule perm)
    show "\<not> fx_lastPass ?fx" by (simp add: fx)
    show "i < length cs" by (rule i)
  qed
  with i show ?thesis by (simp add: small_at_def fx)
qed

lemma ex_graze_matrix: "makeCollisionMatrix [ex_graze] = [[1]]"
  by (simp add: makeCollisionMatrix_def influence_def ex_graze_def ex_ball_def ex_wall_def
      ex_east_def ex_origin_def)

lemma ex_graze_fixed:
  "hcs_fixed_of [ex_graze] False False False True =
     \<lparr>fx_hybrid = False, fx_grouped = False, fx_lastPass = False, fx_doPanic = True,
      fx_joint = [False], fx_e = [1], fx_collisions = [ex_graze], fx_A = [[1]]\<rparr>"
  by (simp add: hcs_fixed_of_def ex_graze_matrix) (simp add: ex_graze_def)

lemma ex_graze_init:
  "hcs_init sim [ex_graze] tot sv =
     \<lparr>st_loopCtr = 0, st_loopPanic = 20, st_small_velocity = sv, st_debugHCS = False,
      st_b = [- 1 / 100000], st_j2 = [0], st_sim = sim, st_totals = tot\<rparr>"
  by (simp add: hcs_init_def) (simp add: ex_graze_def)

lemma ex_graze_run:
  "serial_loop (ex_env False) (Suc 0) (ex_sim h) [ex_graze] False None
      (Some False) (Some False) None None
   = Some (None, \<lparr>st_loopCtr = 1, st_loopPanic = 20, st_small_velocity = 1 / 100000,
        st_debugHCS = False, st_b = [- 1 / 100000], st_j2 = [0], st_sim = ex_sim h,
        st_totals = None\<rparr>)"
  by (simp add: serial_loop_def hcs_loop.simps(2) ex_graze_fixed ex_graze_init hcs_tick_def
      hcs_focus_def large_at_def Let_def ex_env_def ex_sim_def LOOP_LIMIT_def)

lemma ex_graze_serial:
  "handleCollisionsSerial (ex_env False) (Suc 0) (ex_sim h) [ex_graze] False None
          (Some False) (Some False) None None
        = Some (Returns False, ex_sim h, [ex_graze], None)"
proof -
  have "applyImpulses (ex_sim h) [(ex_graze, 0)] False = (None, ex_sim h, [ex_graze], False)"
    by (simp add: applyImpulse_def Let_def TINY_IMPULSE_def) (simp add: ex_graze_def)
  moreover have "DEBUG (ex_env False) = False"
    by (simp add: ex_env_def)
  ultimately show ?thesis
    using ex_graze_run [of h]
    by (simp add: handleCollisionsSerial_def serial_loop_def Let_def)
qed

text \<open>
  C1. When the serial handler returns, at the exit of its loop every collision that is not a
  joint has \<open>b[i] > \<minus>\<epsilon>\<close> and every joint has \<open>|b[i]| < \<epsilon>\<close>, where \<open>\<epsilon>\<close> is the small velocity in
  effect; the comments of \<open>handleCollisionsSerial\<close> say the same of the loop. The code misses
  this at the tolerance itself: \<open>hcs_focus\<close> takes a collision that is not a joint as large
  only if \<open>b[j] < \<minus>\<epsilon>\<close>. For a single collision between the ball and the wall that closes with
  exactly the small velocity \<open>0.00001\<close>, handled without the last pass, no focus is found in
  the first round, the loop ends, the handler returns \<open>false\<close>, and \<open>b[0] = \<minus>\<epsilon>\<close>, which is not
  larger than \<open>\<minus>\<epsilon>\<close>.
\<close>

theorem serial_loop_exit_at_tolerance:
  "fst (the (handleCollisionsSerial (ex_env False) (Suc 0) (ex_sim SERIAL_SEPARATE) [ex_graze]
          False None (Some False) (Some False) None None)) = Returns False
   \<and> fst (the (serial_loop (ex_env False) (Suc 0) (ex_sim SERIAL_SEPARATE) [ex_graze]
          False None (Some False) (Some False) None None)) = None
   \<and> \<not> joint ex_graze
   \<and> st_small_velocity (snd (the (serial_loop (ex_env False) (Suc 0)
          (ex_sim SERIAL_SEPARATE) [ex_graze] False None (Some False) (Some False) None None)))
       = 1 / 100000
   \<and> st_b (snd (the (serial_loop (ex_env False) (Suc 0) (ex_sim SERIAL_SEPARATE) [ex_graze]
          False None (Some False) (Some False) None None))) ! 0 = - 1 / 100000
   \<and> \<not> st_b (snd (the (serial_loop (ex_env False) (Suc 0) (ex_sim SERIAL_SEPARATE) [ex_graze]
            False None (Some False) (Some False) None None))) ! 0
        > - st_small_velocity (snd (the (serial_loop (ex_env False) (Suc 0)
            (ex_sim SERIAL_SEPARATE) [ex_graze] False None (Some False) (Some False) None None)))"
  by (simp add: ex_graze_serial ex_graze_run) (simp add: ex_graze_def)

subsection \<open>The loop limit of the serial handler\<close>





































lemma console_setValue [simp]: "console (setValue sim idx v c) = console sim"
  by (simp add: setValue_def)






end
